theory Spec2Isabelle
  imports Main "HOL-Library.List_Lexorder" "HOL-Library.Char_ord"
begin

section \<open>Data model\<close>

text \<open>
  Identifiers are UUID strings. An instant is a number of milliseconds since the epoch.
\<close>

type_synonym uuid = string
type_synonym instant = int

subsection \<open>Dates\<close>

text \<open>
  The value that a request body carries in a date field. The handlers and the validators
  read three things of it: whether it is there and truthy, whether \<^verbatim>\<open>isISO8601\<close> of
  validator.js accepts it, and the time value of \<^verbatim>\<open>new Date(v)\<close>, which is \<open>None\<close>
  when the date is invalid (\<^verbatim>\<open>getTime()\<close> is NaN). The validator and the parser of
  \<^verbatim>\<open>Date\<close> are two libraries outside the sources, and they do not agree: the
  validator accepts week dates such as \<^verbatim>\<open>2024-W01-1\<close>, which \<^verbatim>\<open>Date\<close> does not
  parse. So the two answers are taken as they come, one beside the other.
  \<^item> \<open>Undefined\<close>: the body has no such field;
  \<^item> \<open>Falsy p\<close>: a falsy value (null, the empty string, 0, false), which is no ISO 8601
    string, with the time value \<open>p\<close> of its date;
  \<^item> \<open>Given acc p\<close>: a truthy value, \<open>acc\<close> telling whether the validator accepts
    it, \<open>p\<close> the time value of its date.
\<close>

datatype js_date_input =
    Undefined
  | Falsy "instant option"
  | Given bool "instant option"

text \<open>A \<^verbatim>\<open>Date\<close> object is its time value, \<open>None\<close> for an invalid date.\<close>

type_synonym js_date = "instant option"

text \<open>
  \<^verbatim>\<open>TimeClip\<close>: a time value beyond 8.64e15 milliseconds on either side of the epoch
  gives an invalid date.
\<close>

definition timeClip :: "int \<Rightarrow> js_date" where
  "timeClip t = (if \<bar>t\<bar> \<le> 8640000000000000 then Some t else None)"

text \<open>\<^verbatim>\<open>new Date(v)\<close> for the value of a body field.\<close>

definition newDate :: "js_date_input \<Rightarrow> js_date" where
  "newDate v =
     (case v of
        Undefined \<Rightarrow> None
      | Falsy p \<Rightarrow> Option.bind p timeClip
      | Given acc p \<Rightarrow> Option.bind p timeClip)"

text \<open>
  \<^verbatim>\<open>new Date(t.getTime() + k)\<close> for an integer \<open>k\<close>: NaN stays NaN, and the sum is
  clipped. The time value of a valid date is an integer below \<open>2^53\<close> in size, so is every
  sum that passes the clip, and the arithmetic of JavaScript numbers is exact there.
\<close>

definition plusMs :: "js_date \<Rightarrow> int \<Rightarrow> js_date" where
  "plusMs t k = Option.bind t (\<lambda>s. timeClip (s + k))"

text \<open>\<^verbatim>\<open>!v\<close> for the value of a body field.\<close>

definition falsy :: "js_date_input \<Rightarrow> bool" where
  "falsy v = (case v of Undefined \<Rightarrow> True | Falsy p \<Rightarrow> True | Given acc p \<Rightarrow> False)"

subsection \<open>Tables\<close>

text \<open>A member as \<^verbatim>\<open>band.getMembers({attributes: [...]})\<close> returns it.\<close>

record member =
  member_id :: uuid
  firstName :: string
  lastName :: string
  email :: string

text \<open>The attributes of \<^verbatim>\<open>models/band.js\<close>; the primary key is the key of the table.\<close>

record band =
  name :: string
  description :: "string option"
  genre :: "string option"
  logoUrl :: "string option"
  website :: "string option"
  contactEmail :: "string option"
  contactPhone :: "string option"
  isActive :: bool
  ownerId :: uuid
  defaultReminderHours :: int
  defaultLocation :: "string option"

text \<open>
  The attributes of the Availability model. A value of type TIME is a string
  \<^verbatim>\<open>HH:MM:SS\<close>; JavaScript compares two strings lexicographically, as the order on
  \<open>string\<close> does here.
\<close>

record availability_row =
  av_id :: uuid
  av_userId :: uuid
  av_dayOfWeek :: int
  av_startTime :: string
  av_endTime :: string
  av_isRecurring :: bool
  av_effectiveDate :: instant
  av_expiryDate :: "instant option"
  av_priority :: int
  av_notes :: "string option"

text \<open>
  The database: the table of bands, the availability rows, and for each band the users
  that the join table \<^verbatim>\<open>UserBand\<close> gives it, in the order in which the query of
  \<^verbatim>\<open>getMembers\<close> returns the rows. The handlers pass no order to that query, so the
  order is the database's choice; it is part of the state here. The join table is the one
  that \<^verbatim>\<open>belongsToMany\<close> generates: it has the two keys and nothing else.
\<close>

record database =
  bands :: "uuid \<rightharpoonup> band"
  bandMembers :: "uuid \<Rightarrow> member list"
  availabilities :: "availability_row list"

text \<open>The authenticated caller, \<^verbatim>\<open>req.user\<close>.\<close>

record req_user =
  user_id :: uuid
  role :: string

text \<open>
  Every \<^verbatim>\<open>res.status(..).json(..)\<close> of a handler other than its success is an error
  value; \<open>ServerError\<close> is the answer of a \<^verbatim>\<open>catch\<close> block.
\<close>

datatype http_error =
    BadRequest string
  | Forbidden string
  | NotFound string
  | ServerError string

definition status :: "http_error \<Rightarrow> nat" where
  "status e =
     (case e of
        BadRequest _ \<Rightarrow> 400
      | Forbidden _ \<Rightarrow> 403
      | NotFound _ \<Rightarrow> 404
      | ServerError _ \<Rightarrow> 500)"

text \<open>The status of a response; \<^verbatim>\<open>res.json\<close> alone answers 200.\<close>

definition statusOf :: "http_error + 'a \<Rightarrow> nat" where
  "statusOf r = (case r of Inl e \<Rightarrow> status e | Inr _ \<Rightarrow> 200)"

subsection \<open>The associations the handlers use\<close>

text \<open>
  \<^verbatim>\<open>Band.belongsToMany(models.User, {through: 'UserBand', as: 'members'})\<close> gives a
  band the methods \<^verbatim>\<open>getMembers\<close> and \<^verbatim>\<open>hasMember\<close> (among others of the plural
  and singular of the alias). It gives no method \<^verbatim>\<open>getMember\<close>.
\<close>

definition findByPk :: "database \<Rightarrow> uuid \<Rightarrow> band option" where
  "findByPk db bid = bands db bid"

definition getMembers :: "database \<Rightarrow> uuid \<Rightarrow> member list" where
  "getMembers db bid = bandMembers db bid"

definition hasMember :: "database \<Rightarrow> uuid \<Rightarrow> uuid \<Rightarrow> bool" where
  "hasMember db bid uid = (uid \<in> set (map member_id (getMembers db bid)))"

subsection \<open>Array.prototype.slice\<close>

text \<open>
  A negative index counts from the end of the array; both indices are clamped to the
  array; an end before the start gives the empty array.
\<close>

definition slice :: "'a list \<Rightarrow> int \<Rightarrow> int \<Rightarrow> 'a list" where
  "slice xs start fin =
     (let len = int (length xs);
          k = (if start < 0 then max (len + start) 0 else min start len);
          final = (if fin < 0 then max (len + fin) 0 else min fin len)
      in take (nat (final - k)) (drop (nat k) xs))"

text \<open>\<^verbatim>\<open>xs.slice(start)\<close>: the end defaults to the length.\<close>

definition slice_from :: "'a list \<Rightarrow> int \<Rightarrow> 'a list" where
  "slice_from xs start = slice xs start (int (length xs))"

section \<open>findOptimalRehearsalTimes\<close>

text \<open>
  The body of the request. The duration is \<open>None\<close> when the body has none, and an
  integer otherwise, as \<^verbatim>\<open>isInt\<close> of the route requires.
\<close>

record optimal_body =
  startDate :: js_date_input
  endDate :: js_date_input
  duration :: "int option"
  minimumMembers :: "int option"

record slot =
  startTime :: js_date
  endTime :: js_date
  availableMembers :: "member list"
  unavailableMembers :: "member list"

record optimal_times =
  message :: string
  suggestedTimes :: "slot list"

text \<open>
  The placeholder response of the handler: the array literal \<^verbatim>\<open>suggestedTimes\<close>,
  as a function of the three values it reads.
\<close>

definition placeholderTimes :: "member list \<Rightarrow> js_date_input \<Rightarrow> int \<Rightarrow> slot list" where
  "placeholderTimes members sd d =
     [ \<lparr> startTime = newDate sd,
         endTime = plusMs (newDate sd) (d * 60000),
         availableMembers = slice members 0 (int (length members) - 1),
         unavailableMembers = slice_from members (- 1) \<rparr>,
       \<lparr> startTime = plusMs (newDate sd) (24 * 60 * 60000),
         endTime = plusMs (newDate sd) (24 * 60 * 60000 + d * 60000),
         availableMembers = members,
         unavailableMembers = [] \<rparr> ]"

text \<open>
  The handler. \<^verbatim>\<open>!duration\<close> holds for a missing duration and for the number 0;
  \<^verbatim>\<open>endDate\<close> and \<^verbatim>\<open>minimumMembers\<close> are read from the body and, the truthiness
  test of \<^verbatim>\<open>endDate\<close> apart, never used; no availability row is read. Nothing in the
  body of the \<^verbatim>\<open>try\<close> throws: \<^verbatim>\<open>hasMember\<close> and \<^verbatim>\<open>getMembers\<close> exist, and an
  invalid date is serialised as null.
\<close>

definition findOptimalRehearsalTimes ::
  "database \<Rightarrow> req_user \<Rightarrow> uuid \<Rightarrow> optimal_body \<Rightarrow> http_error + optimal_times" where
  "findOptimalRehearsalTimes db usr bid body =
     (if falsy (startDate body) \<or> falsy (endDate body) then
        Inl (BadRequest ''Start date, end date, and rehearsal duration (in minutes) are required'')
      else (case duration body of
        None \<Rightarrow>
          Inl (BadRequest ''Start date, end date, and rehearsal duration (in minutes) are required'')
      | Some d \<Rightarrow>
          if d = 0 then
            Inl (BadRequest ''Start date, end date, and rehearsal duration (in minutes) are required'')
          else (case findByPk db bid of
            None \<Rightarrow> Inl (NotFound ''Band not found'')
          | Some b \<Rightarrow>
              if role usr \<noteq> ''admin'' \<and> \<not> hasMember db bid (user_id usr) then
                Inl (Forbidden ''You do not have access to this band'')
              else
                let members = getMembers db bid in
                Inr \<lparr> message = ''Optimal rehearsal times found'',
                      suggestedTimes = placeholderTimes members (startDate body) d \<rparr>)))"

text \<open>The first test of the handler: a required field is missing.\<close>

definition missingField :: "optimal_body \<Rightarrow> bool" where
  "missingField body =
     (falsy (startDate body) \<or> falsy (endDate body) \<or>
      duration body = None \<or> duration body = Some 0)"

text \<open>The input checks of the handler, as one predicate.\<close>

definition passesChecks :: "database \<Rightarrow> req_user \<Rightarrow> uuid \<Rightarrow> optimal_body \<Rightarrow> bool" where
  "passesChecks db usr bid body =
     (\<not> falsy (startDate body) \<and> \<not> falsy (endDate body) \<and>
      duration body \<noteq> None \<and> duration body \<noteq> Some 0 \<and>
      findByPk db bid \<noteq> None \<and>
      (role usr = ''admin'' \<or> hasMember db bid (user_id usr)))"

subsection \<open>The route validators of POST /:id/optimal-times\<close>

text \<open>
  The chain of \<^verbatim>\<open>band.routes.js\<close>, as the list of the messages it records. The path
  parameter is a UUID by its type. The middleware \<^verbatim>\<open>validate\<close> that follows the chain
  is not among the sources; a request reaches the handler when the chain records nothing.
  The chain has no sanitizer: the handler reads the body as it came.
\<close>

definition isISO8601 :: "js_date_input \<Rightarrow> bool" where
  "isISO8601 v = (case v of Undefined \<Rightarrow> False | Falsy p \<Rightarrow> False | Given acc p \<Rightarrow> acc)"

definition isInt :: "int \<Rightarrow> int \<Rightarrow> int option \<Rightarrow> bool" where
  "isInt lo hi v = (case v of None \<Rightarrow> False | Some n \<Rightarrow> lo \<le> n \<and> n \<le> hi)"

definition optimalTimesValidators :: "optimal_body \<Rightarrow> string list" where
  "optimalTimesValidators body =
     (if isISO8601 (startDate body) then [] else [''Start date must be a valid ISO 8601 date'']) @
     (if isISO8601 (endDate body) then [] else [''End date must be a valid ISO 8601 date'']) @
     (if isInt 30 480 (duration body) then []
      else [''Duration must be between 30 and 480 minutes'']) @
     (case minimumMembers body of
        None \<Rightarrow> []
      | Some m \<Rightarrow> if 1 \<le> m then [] else [''Minimum members must be at least 1''])"

subsection \<open>What the specification asks of the result\<close>

text \<open>
  \<^verbatim>\<open>a <= b\<close> on two dates: false when either is invalid.
\<close>

definition js_date_le :: "js_date \<Rightarrow> js_date \<Rightarrow> bool" where
  "js_date_le a b = (case (a, b) of (Some x, Some y) \<Rightarrow> x \<le> y | _ \<Rightarrow> False)"

text \<open>
  The order of section 4.4, in the words of the specification: by the number of available
  members descending, ties by start ascending.
\<close>

definition spec_ranked :: "slot list \<Rightarrow> bool" where
  "spec_ranked cs =
     sorted_wrt (\<lambda>a b. length (availableMembers b) < length (availableMembers a) \<or>
                  (length (availableMembers a) = length (availableMembers b) \<and>
                   js_date_le (startTime a) (startTime b))) cs"

text \<open>
  The contract violations of section 7 that a request can carry: a duration that is not
  positive, a window whose end is not after its start.
\<close>

definition spec_contractViolation :: "optimal_body \<Rightarrow> bool" where
  "spec_contractViolation body =
     ((case duration body of None \<Rightarrow> False | Some d \<Rightarrow> d \<le> 0) \<or>
      js_date_le (newDate (endDate body)) (newDate (startDate body)))"

section \<open>deleteBand\<close>

text \<open>
  The handler returns its response and the database it leaves. For a caller whose role
  is not \<^verbatim>\<open>'admin'\<close> it calls \<^verbatim>\<open>band.getMember(req.user.id)\<close>, a method that the
  association does not give: the call throws a TypeError inside the \<^verbatim>\<open>try\<close>, and the
  \<^verbatim>\<open>catch\<close> block answers 500. Neither the 403 of the handler nor the update is
  reached on that path.
\<close>

definition deleteBand ::
  "database \<Rightarrow> req_user \<Rightarrow> uuid \<Rightarrow> (http_error + string) \<times> database" where
  "deleteBand db usr bid =
     (case findByPk db bid of
        None \<Rightarrow> (Inl (NotFound ''Band not found''), db)
      | Some b \<Rightarrow>
          if role usr \<noteq> ''admin'' then
            (Inl (ServerError ''Error deactivating band''), db)
          else
            (Inr ''Band deactivated successfully'',
             db\<lparr> bands := (bands db)(bid \<mapsto> b\<lparr> isActive := False \<rparr>) \<rparr>))"

section \<open>The validators of the availability routes\<close>

text \<open>
  The body of POST and PUT /api/availability. An integer field, the type and the note are
  \<open>None\<close> when the request does not carry them; an integer field that is present is an
  integer, a type or a note that is present is a string.
\<close>

record availability_body =
  req_type :: "string option"
  req_startTime :: js_date_input
  req_endTime :: js_date_input
  req_dayOfWeek :: "int option"
  req_startHour :: "int option"
  req_startMinute :: "int option"
  req_endHour :: "int option"
  req_endMinute :: "int option"
  req_effectiveDate :: js_date_input
  req_expiryDate :: js_date_input
  req_note :: "string option"

text \<open>
  \<^verbatim>\<open>new Date(a) <= new Date(b)\<close> on two body fields: when either date is invalid,
  because the field is missing or because \<^verbatim>\<open>Date\<close> does not parse it, the comparison
  is false.
\<close>

definition date_le :: "js_date_input \<Rightarrow> js_date_input \<Rightarrow> bool" where
  "date_le a b = js_date_le (newDate a) (newDate b)"

definition check :: "bool \<Rightarrow> string \<Rightarrow> string list" where
  "check ok msg = (if ok then [] else [msg])"

text \<open>
  The chain of POST /api/availability. \<^verbatim>\<open>.if(body('type').equals(t))\<close> runs the rest
  of a chain only when the type is \<open>t\<close>; \<^verbatim>\<open>.optional()\<close> skips the rest of a chain
  when the field is undefined; a \<^verbatim>\<open>.custom\<close> validator runs whatever the validators
  before it found.
\<close>

definition createValidators :: "availability_body \<Rightarrow> string list" where
  \<open>createValidators b =
     check (req_type b = Some ''one-time'' \<or> req_type b = Some ''recurring'')
       ''Type must be either "one-time" or "recurring"'' @
     (if req_type b = Some ''one-time'' then
        check (isISO8601 (req_startTime b)) ''Start time must be a valid ISO 8601 date'' @
        check (isISO8601 (req_endTime b)) ''End time must be a valid ISO 8601 date'' @
        check (\<not> date_le (req_endTime b) (req_startTime b)) ''End time must be after start time''
      else []) @
     (if req_type b = Some ''recurring'' then
        check (isInt 0 6 (req_dayOfWeek b))
          ''Day of week must be between 0 (Sunday) and 6 (Saturday)'' @
        check (isInt 0 23 (req_startHour b)) ''Start hour must be between 0 and 23'' @
        check (isInt 0 59 (req_startMinute b)) ''Start minute must be between 0 and 59'' @
        check (isInt 0 23 (req_endHour b)) ''End hour must be between 0 and 23'' @
        check (isInt 0 59 (req_endMinute b)) ''End minute must be between 0 and 59'' @
        check (isISO8601 (req_effectiveDate b)) ''Effective date must be a valid ISO 8601 date'' @
        (if req_expiryDate b = Undefined then []
         else
           check (isISO8601 (req_expiryDate b)) ''Expiry date must be a valid ISO 8601 date'' @
           check (\<not> date_le (req_expiryDate b) (req_effectiveDate b))
             ''Expiry date must be after effective date'')
      else []) @
     (case req_note b of
        None \<Rightarrow> []
      | Some n \<Rightarrow> check (length n \<le> 255) ''Note must be at most 255 characters'')\<close>

text \<open>
  The chain of PUT /api/availability/:id: every field is optional, and each of the two
  \<^verbatim>\<open>.custom\<close> validators compares only when the other field of the body is truthy.
\<close>

definition updateValidators :: "availability_body \<Rightarrow> string list" where
  "updateValidators b =
     (if req_startTime b = Undefined then []
      else check (isISO8601 (req_startTime b)) ''Start time must be a valid ISO 8601 date'') @
     (if req_endTime b = Undefined then []
      else
        check (isISO8601 (req_endTime b)) ''End time must be a valid ISO 8601 date'' @
        check (\<not> (\<not> falsy (req_startTime b) \<and> date_le (req_endTime b) (req_startTime b)))
          ''End time must be after start time'') @
     (case req_dayOfWeek b of
        None \<Rightarrow> []
      | Some n \<Rightarrow> check (isInt 0 6 (Some n))
          ''Day of week must be between 0 (Sunday) and 6 (Saturday)'') @
     (case req_startHour b of
        None \<Rightarrow> []
      | Some n \<Rightarrow> check (isInt 0 23 (Some n)) ''Start hour must be between 0 and 23'') @
     (case req_startMinute b of
        None \<Rightarrow> []
      | Some n \<Rightarrow> check (isInt 0 59 (Some n)) ''Start minute must be between 0 and 59'') @
     (case req_endHour b of
        None \<Rightarrow> []
      | Some n \<Rightarrow> check (isInt 0 23 (Some n)) ''End hour must be between 0 and 23'') @
     (case req_endMinute b of
        None \<Rightarrow> []
      | Some n \<Rightarrow> check (isInt 0 59 (Some n)) ''End minute must be between 0 and 59'') @
     (if req_effectiveDate b = Undefined then []
      else check (isISO8601 (req_effectiveDate b))
        ''Effective date must be a valid ISO 8601 date'') @
     (if req_expiryDate b = Undefined then []
      else
        check (isISO8601 (req_expiryDate b)) ''Expiry date must be a valid ISO 8601 date'' @
        check (\<not> (\<not> falsy (req_effectiveDate b) \<and>
                   date_le (req_expiryDate b) (req_effectiveDate b)))
          ''Expiry date must be after effective date'') @
     (case req_note b of
        None \<Rightarrow> []
      | Some n \<Rightarrow> check (length n \<le> 255) ''Note must be at most 255 characters'')"

text \<open>
  The placeholder controller answers 201 to every body that passes the chain, echoing the
  body; nothing else is checked.
\<close>

definition createAvailability :: "availability_body \<Rightarrow> http_error + nat \<times> availability_body" where
  "createAvailability b =
     (if createValidators b = [] then Inr (201, b) else Inl (BadRequest ''Validation error''))"

text \<open>The time of day of a recurring record, in minutes after midnight.\<close>

definition startOfDay :: "availability_body \<Rightarrow> int" where
  "startOfDay b = the (req_startHour b) * 60 + the (req_startMinute b)"

definition endOfDay :: "availability_body \<Rightarrow> int" where
  "endOfDay b = the (req_endHour b) * 60 + the (req_endMinute b)"

section \<open>The validators of the Availability model\<close>

text \<open>
  The validators that \<^verbatim>\<open>sequelize.define('Availability', ...)\<close> attaches to the
  attributes: \<^verbatim>\<open>isAfterStart\<close> on \<open>endTime\<close>, \<^verbatim>\<open>isAfterEffective\<close> on
  \<open>expiryDate\<close>, which passes a missing expiry date, and the range of \<open>dayOfWeek\<close>.
  The custom validators report first.
\<close>

definition isAfterStart :: "availability_row \<Rightarrow> string list" where
  "isAfterStart r =
     check (\<not> av_endTime r \<le> av_startTime r) ''End time must be after start time''"

definition isAfterEffective :: "availability_row \<Rightarrow> string list" where
  "isAfterEffective r =
     (case av_expiryDate r of
        None \<Rightarrow> []
      | Some x \<Rightarrow>
          check (\<not> x \<le> av_effectiveDate r) ''Expiry date must be after effective date'')"

definition modelValidators :: "availability_row \<Rightarrow> string list" where
  "modelValidators r =
     isAfterStart r @ isAfterEffective r @
     check (0 \<le> av_dayOfWeek r) ''Validation min on dayOfWeek failed'' @
     check (av_dayOfWeek r \<le> 6) ''Validation max on dayOfWeek failed''"

section \<open>Example data\<close>

text \<open>
  Two ways a start date comes: an ISO 8601 date and time that \<^verbatim>\<open>Date\<close> parses, and
  a week date, \<^verbatim>\<open>2024-W01-1\<close>, which the validator accepts and \<^verbatim>\<open>Date\<close> does
  not parse.
\<close>

definition isoAt :: "instant \<Rightarrow> js_date_input" where
  "isoAt t = Given True (Some t)"


definition alice :: member where
  "alice = \<lparr> member_id = ''u1'', firstName = ''Alice'', lastName = ''A'', email = ''a@x.org'' \<rparr>"

definition bob :: member where
  "bob = \<lparr> member_id = ''u2'', firstName = ''Bob'', lastName = ''B'', email = ''b@x.org'' \<rparr>"

definition theBand :: band where
  "theBand = \<lparr> name = ''The Band'', description = None, genre = Some ''rock'', logoUrl = None,
      website = None, contactEmail = Some ''band@x.org'', contactPhone = None, isActive = True,
      ownerId = ''u1'', defaultReminderHours = 24, defaultLocation = Some ''garage'' \<rparr>"

text \<open>Alice's band, with Alice and Bob, in the two orders in which the rows can come.\<close>

definition db2 :: database where
  "db2 = \<lparr> bands = [''b1'' \<mapsto> theBand],
           bandMembers = (\<lambda>b. if b = ''b1'' then [alice, bob] else []),
           availabilities = [] \<rparr>"

definition db2swap :: database where
  "db2swap = \<lparr> bands = [''b1'' \<mapsto> theBand],
           bandMembers = (\<lambda>b. if b = ''b1'' then [bob, alice] else []),
           availabilities = [] \<rparr>"

definition db1 :: database where
  "db1 = \<lparr> bands = [''b1'' \<mapsto> theBand],
           bandMembers = (\<lambda>b. if b = ''b1'' then [alice] else []),
           availabilities = [] \<rparr>"

definition db0 :: database where
  "db0 = \<lparr> bands = [''b1'' \<mapsto> theBand], bandMembers = (\<lambda>b. []), availabilities = [] \<rparr>"

definition aliceUser :: req_user where
  "aliceUser = \<lparr> user_id = ''u1'', role = ''user'' \<rparr>"

definition bobUser :: req_user where
  "bobUser = \<lparr> user_id = ''u2'', role = ''user'' \<rparr>"

definition appAdmin :: req_user where
  "appAdmin = \<lparr> user_id = ''u9'', role = ''admin'' \<rparr>"

definition body60 :: optimal_body where
  "body60 = \<lparr> startDate = isoAt 1000, endDate = isoAt 2000, duration = Some 60,
              minimumMembers = None \<rparr>"

definition bodyMin5 :: optimal_body where
  "bodyMin5 = \<lparr> startDate = isoAt 1000, endDate = isoAt 2000, duration = Some 60,
                minimumMembers = Some 5 \<rparr>"

definition bodyBackwards :: optimal_body where
  "bodyBackwards = \<lparr> startDate = isoAt 2000, endDate = isoAt 1000, duration = Some 60,
                     minimumMembers = None \<rparr>"


text \<open>A recurring record from 20:00 to 18:00 on Mondays.\<close>

definition eveningBackwards :: availability_body where
  "eveningBackwards = \<lparr> req_type = Some ''recurring'', req_startTime = Undefined,
      req_endTime = Undefined, req_dayOfWeek = Some 1, req_startHour = Some 20,
      req_startMinute = Some 0, req_endHour = Some 18, req_endMinute = Some 0,
      req_effectiveDate = isoAt 1000, req_expiryDate = Undefined, req_note = None \<rparr>"

text \<open>The same record as a row of the table.\<close>

definition eveningRow :: availability_row where
  "eveningRow = \<lparr> av_id = ''a1'', av_userId = ''u1'', av_dayOfWeek = 1,
      av_startTime = ''20:00:00'', av_endTime = ''18:00:00'', av_isRecurring = True,
      av_effectiveDate = 1000, av_expiryDate = None, av_priority = 1, av_notes = None \<rparr>"

text \<open>The responses to \<open>body60\<close> for the rosters of two, one and no member.\<close>

definition resp2 :: optimal_times where
  "resp2 = \<lparr> message = ''Optimal rehearsal times found'',
      suggestedTimes =
        [ \<lparr> startTime = Some 1000, endTime = Some 3601000,
            availableMembers = [alice], unavailableMembers = [bob] \<rparr>,
          \<lparr> startTime = Some 86401000, endTime = Some 90001000,
            availableMembers = [alice, bob], unavailableMembers = [] \<rparr> ] \<rparr>"

definition slotA :: slot where
  "slotA = \<lparr> startTime = Some 1000, endTime = Some 3601000,
             availableMembers = [alice], unavailableMembers = [bob] \<rparr>"

definition resp1 :: optimal_times where
  "resp1 = \<lparr> message = ''Optimal rehearsal times found'',
      suggestedTimes =
        [ \<lparr> startTime = Some 1000, endTime = Some 3601000,
            availableMembers = [], unavailableMembers = [alice] \<rparr>,
          \<lparr> startTime = Some 86401000, endTime = Some 90001000,
            availableMembers = [alice], unavailableMembers = [] \<rparr> ] \<rparr>"

definition resp0 :: optimal_times where
  "resp0 = \<lparr> message = ''Optimal rehearsal times found'',
      suggestedTimes =
        [ \<lparr> startTime = Some 1000, endTime = Some 3601000,
            availableMembers = [], unavailableMembers = [] \<rparr>,
          \<lparr> startTime = Some 86401000, endTime = Some 90001000,
            availableMembers = [], unavailableMembers = [] \<rparr> ] \<rparr>"



text \<open>The response to \<open>body60\<close> when the rows of the roster come in the other order.\<close>

definition resp2swap :: optimal_times where
  "resp2swap = \<lparr> message = ''Optimal rehearsal times found'',
      suggestedTimes =
        [ \<lparr> startTime = Some 1000, endTime = Some 3601000,
            availableMembers = [bob], unavailableMembers = [alice] \<rparr>,
          \<lparr> startTime = Some 86401000, endTime = Some 90001000,
            availableMembers = [bob, alice], unavailableMembers = [] \<rparr> ] \<rparr>"

section \<open>Basic facts\<close>

lemma slice_butlast: "slice xs 0 (int (length xs) - 1) = butlast xs"
proof (cases xs rule: rev_cases)
  case Nil
  then show ?thesis by (simp add: slice_def)
next
  case (snoc ys y)
  then show ?thesis by (simp add: slice_def Let_def)
qed

lemma slice_from_last: "slice_from xs (- 1) = (if xs = [] then [] else [last xs])"
proof (cases xs rule: rev_cases)
  case Nil
  then show ?thesis by (simp add: slice_from_def slice_def)
next
  case (snoc ys y)
  then show ?thesis by (simp add: slice_from_def slice_def Let_def)
qed

lemma placeholderTimes_eq:
  "placeholderTimes ms sd d =
     [ \<lparr> startTime = newDate sd, endTime = plusMs (newDate sd) (d * 60000),
         availableMembers = butlast ms,
         unavailableMembers = (if ms = [] then [] else [last ms]) \<rparr>,
       \<lparr> startTime = plusMs (newDate sd) 86400000,
         endTime = plusMs (newDate sd) (86400000 + d * 60000),
         availableMembers = ms, unavailableMembers = [] \<rparr> ]"
  by (simp add: placeholderTimes_def slice_butlast slice_from_last)

lemma findOptimal_success:
  "findOptimalRehearsalTimes db usr bid body = Inr r \<longleftrightarrow>
     passesChecks db usr bid body \<and>
     r = \<lparr> message = ''Optimal rehearsal times found'',
           suggestedTimes =
             placeholderTimes (getMembers db bid) (startDate body) (the (duration body)) \<rparr>"
  by (auto simp: findOptimalRehearsalTimes_def passesChecks_def Let_def
           split: option.splits if_splits)

lemma findOptimal_passes:
  "passesChecks db usr bid body \<Longrightarrow>
     findOptimalRehearsalTimes db usr bid body =
       Inr \<lparr> message = ''Optimal rehearsal times found'',
             suggestedTimes =
               placeholderTimes (getMembers db bid) (startDate body) (the (duration body)) \<rparr>"
  using findOptimal_success by blast

lemma newDate_isoAt: "\<bar>t\<bar> \<le> 8640000000000000 \<Longrightarrow> newDate (isoAt t) = Some t"
  by (simp add: newDate_def isoAt_def timeClip_def)


lemma members_db2: "getMembers db2 ''b1'' = [alice, bob]"
  by (simp add: getMembers_def db2_def)

lemma members_db2swap: "getMembers db2swap ''b1'' = [bob, alice]"
  by (simp add: getMembers_def db2swap_def)

lemma members_db1: "getMembers db1 ''b1'' = [alice]"
  by (simp add: getMembers_def db1_def)

lemma members_db0: "getMembers db0 ''b1'' = []"
  by (simp add: getMembers_def db0_def)

lemma passes_body60: "passesChecks db2 aliceUser ''b1'' body60"
  by (simp add: passesChecks_def db2_def aliceUser_def body60_def findByPk_def hasMember_def
        getMembers_def alice_def bob_def falsy_def isoAt_def)

lemma passes_swap: "passesChecks db2swap aliceUser ''b1'' body60"
  by (simp add: passesChecks_def db2swap_def aliceUser_def body60_def findByPk_def hasMember_def
        getMembers_def alice_def bob_def falsy_def isoAt_def)


lemma passes_db1: "passesChecks db1 aliceUser ''b1'' body60"
  by (simp add: passesChecks_def db1_def aliceUser_def body60_def findByPk_def hasMember_def
        getMembers_def alice_def falsy_def isoAt_def)

lemma passes_db1_min5: "passesChecks db1 aliceUser ''b1'' bodyMin5"
  by (simp add: passesChecks_def db1_def aliceUser_def bodyMin5_def findByPk_def hasMember_def
        getMembers_def alice_def falsy_def isoAt_def)

lemma passes_db0: "passesChecks db0 appAdmin ''b1'' body60"
  by (simp add: passesChecks_def db0_def appAdmin_def body60_def findByPk_def falsy_def
        isoAt_def)

lemma passes_backwards: "passesChecks db2 aliceUser ''b1'' bodyBackwards"
  by (simp add: passesChecks_def db2_def aliceUser_def bodyBackwards_def findByPk_def
        hasMember_def getMembers_def alice_def bob_def falsy_def isoAt_def)

lemma times_1000:
  "newDate (isoAt 1000) = Some 1000"
  "plusMs (Some 1000) 3600000 = Some 3601000"
  "plusMs (Some 1000) 86400000 = Some 86401000"
  "plusMs (Some 1000) 90000000 = Some 90001000"
  by (simp_all add: newDate_def isoAt_def plusMs_def timeClip_def)

lemma findOptimal_db2: "findOptimalRehearsalTimes db2 aliceUser ''b1'' body60 = Inr resp2"
  using findOptimal_passes [OF passes_body60]
  by (simp add: members_db2 placeholderTimes_eq body60_def resp2_def times_1000)

lemma findOptimal_db2swap:
  "findOptimalRehearsalTimes db2swap aliceUser ''b1'' body60 = Inr resp2swap"
  using findOptimal_passes [OF passes_swap]
  by (simp add: members_db2swap placeholderTimes_eq body60_def resp2swap_def times_1000)


lemma findOptimal_db1: "findOptimalRehearsalTimes db1 aliceUser ''b1'' body60 = Inr resp1"
  using findOptimal_passes [OF passes_db1]
  by (simp add: members_db1 placeholderTimes_eq body60_def resp1_def times_1000)

lemma findOptimal_db1_min5: "findOptimalRehearsalTimes db1 aliceUser ''b1'' bodyMin5 = Inr resp1"
  using findOptimal_passes [OF passes_db1_min5]
  by (simp add: members_db1 placeholderTimes_eq bodyMin5_def resp1_def times_1000)

lemma findOptimal_db0: "findOptimalRehearsalTimes db0 appAdmin ''b1'' body60 = Inr resp0"
  using findOptimal_passes [OF passes_db0]
  by (simp add: members_db0 placeholderTimes_eq body60_def resp0_def times_1000)

lemma slotA_in: "slotA \<in> set (suggestedTimes resp2)"
  by (simp add: resp2_def slotA_def)


lemma distinct_db2: "distinct (getMembers db2 ''b1'')"
  by (simp add: members_db2 alice_def bob_def)

lemma validators_backwards: "optimalTimesValidators bodyBackwards = []"
  by (simp add: optimalTimesValidators_def bodyBackwards_def isISO8601_def isInt_def isoAt_def)


lemma validators_body60: "optimalTimesValidators body60 = []"
  by (simp add: optimalTimesValidators_def body60_def isISO8601_def isInt_def isoAt_def)

lemma plusMs_Some: "plusMs t k = Some b \<Longrightarrow> \<exists>s. t = Some s \<and> b = s + k"
  by (cases t) (auto simp: plusMs_def timeClip_def split: if_splits)

section \<open>Claim C1: the members of every returned slot\<close>

lemma butlast_last_set: "xs \<noteq> [] \<Longrightarrow> set (butlast xs) \<union> {last xs} = set xs"
proof -
  assume "xs \<noteq> []"
  then have "butlast xs @ [last xs] = xs" by simp
  then have "set (butlast xs @ [last xs]) = set xs" by simp
  then show ?thesis by simp
qed

lemma butlast_last_disjoint: "distinct xs \<Longrightarrow> xs \<noteq> [] \<Longrightarrow> last xs \<notin> set (butlast xs)"
proof -
  assume d: "distinct xs" and ne: "xs \<noteq> []"
  from ne have "butlast xs @ [last xs] = xs" by simp
  with d have "distinct (butlast xs @ [last xs])" by simp
  then show ?thesis by simp
qed

text \<open>
  Claim C1. For every slot that findOptimalRehearsalTimes returns, the available members
  together with the unavailable members are the roster of the band, and no member is in
  both; the roster is the list that \<^verbatim>\<open>getMembers\<close> returns, which, being a set of
  members, repeats none.
\<close>

theorem members_partition:
  assumes "findOptimalRehearsalTimes db usr bid body = Inr r"
    and "c \<in> set (suggestedTimes r)"
  shows "set (availableMembers c) \<union> set (unavailableMembers c) = set (getMembers db bid) \<and>
         (distinct (getMembers db bid) \<longrightarrow>
            set (availableMembers c) \<inter> set (unavailableMembers c) = {})"
proof -
  let ?ms = "getMembers db bid"
  from assms(1) have
    "suggestedTimes r = placeholderTimes ?ms (startDate body) (the (duration body))"
    by (simp add: findOptimal_success)
  with assms(2) consider
      (first) "availableMembers c = butlast ?ms"
              "unavailableMembers c = (if ?ms = [] then [] else [last ?ms])"
    | (second) "availableMembers c = ?ms" "unavailableMembers c = []"
    by (auto simp: placeholderTimes_eq)
  then show ?thesis
  proof cases
    case first
    show ?thesis
    proof (cases "?ms = []")
      case True
      with first show ?thesis by simp
    next
      case False
      with first show ?thesis
        using butlast_last_set [OF False] butlast_last_disjoint [of ?ms] by simp
    qed
  next
    case second
    then show ?thesis by simp
  qed
qed

text \<open>
  Claim C1, at the band of Alice and Bob: the first slot has Alice available and Bob
  unavailable.
\<close>

theorem members_partition_witness:
  "findOptimalRehearsalTimes db2 aliceUser ''b1'' body60 = Inr resp2 \<and>
   slotA \<in> set (suggestedTimes resp2) \<and>
   set (availableMembers slotA) \<union> set (unavailableMembers slotA) = set (getMembers db2 ''b1'') \<and>
   set (availableMembers slotA) \<inter> set (unavailableMembers slotA) = {}"
  using members_partition [OF findOptimal_db2 slotA_in] findOptimal_db2 slotA_in distinct_db2
  by blast

section \<open>Claim C2: the order of the returned slots\<close>

text \<open>
  Claim C2 says that the returned list is sorted by the number of available members,
  descending, ties by start ascending. With a roster of one member the first slot has
  no available member and the second has one: the list is not in that order.
\<close>

theorem ranking_counterexample:
  "findOptimalRehearsalTimes db1 aliceUser ''b1'' body60 = Inr resp1 \<and>
   \<not> spec_ranked (suggestedTimes resp1)"
  using findOptimal_db1 by (simp add: resp1_def spec_ranked_def)

text \<open>
  Claim C2, amended. The first of the two returned slots never has more available
  members than the second, and whenever the roster is not empty the list is not in the
  order of the specification. Where both slots have a valid start date, the first starts
  before the second; a start date that \<^verbatim>\<open>Date\<close> cannot parse, or that leaves the
  range of \<^verbatim>\<open>Date\<close>, gives an invalid start, which is in no order.
\<close>

theorem members_ascending:
  assumes "findOptimalRehearsalTimes db usr bid body = Inr r"
  shows "sorted_wrt (\<lambda>a b. length (availableMembers a) \<le> length (availableMembers b))
           (suggestedTimes r) \<and>
         (getMembers db bid \<noteq> [] \<longrightarrow> \<not> spec_ranked (suggestedTimes r)) \<and>
         sorted_wrt (\<lambda>a b. \<forall>x y. startTime a = Some x \<and> startTime b = Some y \<longrightarrow> x < y)
           (suggestedTimes r)"
proof -
  let ?ms = "getMembers db bid"
  from assms have st:
    "suggestedTimes r = placeholderTimes ?ms (startDate body) (the (duration body))"
    by (simp add: findOptimal_success)
  have a: "sorted_wrt (\<lambda>a b. length (availableMembers a) \<le> length (availableMembers b))
           (suggestedTimes r)"
    by (simp add: st placeholderTimes_eq)
  have b: "?ms \<noteq> [] \<longrightarrow> \<not> spec_ranked (suggestedTimes r)"
  proof
    assume "?ms \<noteq> []"
    then have "0 < length ?ms" by simp
    then have "\<not> length ?ms < length ?ms - Suc 0 \<and> length ?ms - Suc 0 \<noteq> length ?ms"
      by arith
    then show "\<not> spec_ranked (suggestedTimes r)"
      by (simp add: st placeholderTimes_eq spec_ranked_def)
  qed
  have c: "sorted_wrt (\<lambda>a b. \<forall>x y. startTime a = Some x \<and> startTime b = Some y \<longrightarrow> x < y)
           (suggestedTimes r)"
    by (auto simp: st placeholderTimes_eq dest!: plusMs_Some)
  from a b c show ?thesis by blast
qed

text \<open>
  Claim C2, amended, at the band of Alice and Bob.
\<close>

theorem members_ascending_witness:
  "findOptimalRehearsalTimes db2 aliceUser ''b1'' body60 = Inr resp2 \<and>
   getMembers db2 ''b1'' \<noteq> [] \<and>
   sorted_wrt (\<lambda>a b. length (availableMembers a) \<le> length (availableMembers b))
     (suggestedTimes resp2) \<and>
   \<not> spec_ranked (suggestedTimes resp2)"
  using members_ascending [OF findOptimal_db2] findOptimal_db2
  by (simp add: members_db2)

section \<open>Claim C3: minimumMembers above the size of the roster\<close>

text \<open>
  Claim C3 says that a request whose minimumMembers exceeds the size of the roster gets
  an empty list. With minimumMembers 5 and a roster of one member the handler returns
  its two slots.
\<close>

theorem minimum_members_counterexample:
  "minimumMembers bodyMin5 = Some 5 \<and> int (length (getMembers db1 ''b1'')) < 5 \<and>
   findOptimalRehearsalTimes db1 aliceUser ''b1'' bodyMin5 = Inr resp1 \<and>
   suggestedTimes resp1 \<noteq> []"
  using findOptimal_db1_min5 by (simp add: members_db1 bodyMin5_def resp1_def)

text \<open>
  Claim C3, amended. minimumMembers is read and never used: a request that passes the
  input checks gets the same response, of two slots, whatever minimumMembers is.
\<close>

theorem minimum_members_ignored:
  assumes "passesChecks db usr bid body"
  shows "findOptimalRehearsalTimes db usr bid (body\<lparr> minimumMembers := m \<rparr>) =
           findOptimalRehearsalTimes db usr bid body \<and>
         (\<exists>r. findOptimalRehearsalTimes db usr bid (body\<lparr> minimumMembers := m \<rparr>) = Inr r \<and>
              length (suggestedTimes r) = 2)"
proof -
  have eq: "findOptimalRehearsalTimes db usr bid (body\<lparr> minimumMembers := m \<rparr>) =
            findOptimalRehearsalTimes db usr bid body"
    by (simp add: findOptimalRehearsalTimes_def split: option.splits)
  from findOptimal_passes [OF assms] show ?thesis
    by (simp add: eq placeholderTimes_def)
qed

text \<open>
  Claim C3, amended, at a roster of one member and minimumMembers 5.
\<close>

theorem minimum_members_ignored_witness:
  "passesChecks db1 aliceUser ''b1'' body60 \<and>
   findOptimalRehearsalTimes db1 aliceUser ''b1'' (body60\<lparr> minimumMembers := Some 5 \<rparr>) =
     findOptimalRehearsalTimes db1 aliceUser ''b1'' body60 \<and>
   (\<exists>r. findOptimalRehearsalTimes db1 aliceUser ''b1'' (body60\<lparr> minimumMembers := Some 5 \<rparr>) = Inr r \<and>
        length (suggestedTimes r) = 2)"
  using minimum_members_ignored [OF passes_db1, of "Some 5"] passes_db1 by blast

section \<open>Claim C4: the empty roster\<close>

lemma forbidden_db0:
  "findOptimalRehearsalTimes db0 aliceUser ''b1'' body60 =
     Inl (Forbidden ''You do not have access to this band'')"
  by (simp add: findOptimalRehearsalTimes_def db0_def aliceUser_def body60_def findByPk_def
        hasMember_def getMembers_def falsy_def isoAt_def)

text \<open>
  Claim C4 says that with an empty roster the handler returns an empty list, as a
  success. For an administrator of the application it returns a success whose list has
  two slots; for any other caller it returns an error, since nobody is a member of a band
  without members.
\<close>

theorem empty_roster_counterexample:
  "getMembers db0 ''b1'' = [] \<and>
   findOptimalRehearsalTimes db0 appAdmin ''b1'' body60 = Inr resp0 \<and>
   suggestedTimes resp0 \<noteq> [] \<and>
   isl (findOptimalRehearsalTimes db0 aliceUser ''b1'' body60)"
  using findOptimal_db0 forbidden_db0 by (simp add: members_db0 resp0_def)

text \<open>
  Claim C4, amended. With an empty roster, a request for an existing band that carries
  its three required fields is answered according to the caller. An administrator of
  the application gets a success, not an error, with two slots whose available and
  unavailable members are both empty. Any other caller gets the error 403, for not
  being a member of the band.
\<close>

theorem empty_roster_response:
  assumes "getMembers db bid = []" and "\<not> missingField body" and "findByPk db bid \<noteq> None"
  shows "(role usr = ''admin'' \<longrightarrow>
            (\<exists>r. findOptimalRehearsalTimes db usr bid body = Inr r \<and>
                 length (suggestedTimes r) = 2 \<and>
                 (\<forall>c \<in> set (suggestedTimes r).
                    availableMembers c = [] \<and> unavailableMembers c = []))) \<and>
         (role usr \<noteq> ''admin'' \<longrightarrow>
            findOptimalRehearsalTimes db usr bid body =
              Inl (Forbidden ''You do not have access to this band''))"
proof (intro conjI impI)
  assume adm: "role usr = ''admin''"
  with assms have "passesChecks db usr bid body"
    by (simp add: passesChecks_def missingField_def)
  from findOptimal_passes [OF this] assms(1)
  show "\<exists>r. findOptimalRehearsalTimes db usr bid body = Inr r \<and>
             length (suggestedTimes r) = 2 \<and>
             (\<forall>c \<in> set (suggestedTimes r).
                availableMembers c = [] \<and> unavailableMembers c = [])"
    by (simp add: placeholderTimes_eq)
next
  assume "role usr \<noteq> ''admin''"
  with assms show "findOptimalRehearsalTimes db usr bid body =
      Inl (Forbidden ''You do not have access to this band'')"
    by (auto simp: findOptimalRehearsalTimes_def missingField_def hasMember_def
             split: option.splits)
qed

text \<open>
  Claim C4, amended, at a band without members, for an administrator and for Alice.
\<close>

theorem empty_roster_response_witness:
  "getMembers db0 ''b1'' = [] \<and> \<not> missingField body60 \<and> findByPk db0 ''b1'' \<noteq> None \<and>
   (\<exists>r. findOptimalRehearsalTimes db0 appAdmin ''b1'' body60 = Inr r \<and>
        length (suggestedTimes r) = 2 \<and>
        (\<forall>c \<in> set (suggestedTimes r).
           availableMembers c = [] \<and> unavailableMembers c = [])) \<and>
   findOptimalRehearsalTimes db0 aliceUser ''b1'' body60 =
     Inl (Forbidden ''You do not have access to this band'')"
proof -
  have m: "\<not> missingField body60"
    by (simp add: missingField_def body60_def falsy_def isoAt_def)
  have f: "findByPk db0 ''b1'' \<noteq> None"
    by (simp add: findByPk_def db0_def)
  have r: "role appAdmin = ''admin''" "role aliceUser \<noteq> ''admin''"
    by (simp_all add: appAdmin_def aliceUser_def)
  show ?thesis
    using empty_roster_response [OF members_db0 m f, of appAdmin]
      empty_roster_response [OF members_db0 m f, of aliceUser] members_db0 m f r
    by blast
qed

section \<open>Claim C5: the length of every returned slot\<close>




section \<open>Claim C6: when a call is rejected\<close>

text \<open>
  Claim C6 says that a call is rejected exactly when it violates the contract, a window
  whose end is not after its start being a violation. A window from 2000 to 1000 passes
  the validators of the route and the handler answers with a success.
\<close>

theorem rejection_counterexample:
  "spec_contractViolation bodyBackwards \<and>
   optimalTimesValidators bodyBackwards = [] \<and>
   \<not> isl (findOptimalRehearsalTimes db2 aliceUser ''b1'' bodyBackwards)"
  using findOptimal_passes [OF passes_backwards] validators_backwards
  by (simp add: spec_contractViolation_def bodyBackwards_def js_date_le_def newDate_def
        isoAt_def timeClip_def)

text \<open>
  Claim C6, amended. The handler answers 400 when startDate, endDate or the duration is
  missing or falsy, else 404 when the band does not exist, else 403 when the caller is
  neither an administrator of the application nor a member of the band, and else 200
  with a result; it rejects a call exactly when the status is not 200. The validators of
  the route record an error exactly when startDate or endDate is no ISO 8601 string, the
  duration is missing or outside 30..480, or minimumMembers is below 1. The value of
  endDate is never compared with startDate: whatever truthy value it has, the response
  is the same.
\<close>

theorem rejection_status:
  "statusOf (findOptimalRehearsalTimes db usr bid body) =
     (if missingField body then 400
      else if findByPk db bid = None then 404
      else if role usr \<noteq> ''admin'' \<and> \<not> hasMember db bid (user_id usr) then 403
      else 200) \<and>
   (isl (findOptimalRehearsalTimes db usr bid body) \<longleftrightarrow>
      statusOf (findOptimalRehearsalTimes db usr bid body) \<noteq> 200) \<and>
   (optimalTimesValidators body \<noteq> [] \<longleftrightarrow>
      \<not> isISO8601 (startDate body) \<or> \<not> isISO8601 (endDate body) \<or>
      (case duration body of None \<Rightarrow> True | Some d \<Rightarrow> d < 30 \<or> 480 < d) \<or>
      (case minimumMembers body of None \<Rightarrow> False | Some m \<Rightarrow> m < 1)) \<and>
   findOptimalRehearsalTimes db usr bid (body\<lparr> endDate := Given i e \<rparr>) =
     findOptimalRehearsalTimes db usr bid (body\<lparr> endDate := Given i' e' \<rparr>)"
proof (intro conjI)
  show st: "statusOf (findOptimalRehearsalTimes db usr bid body) =
     (if missingField body then 400
      else if findByPk db bid = None then 404
      else if role usr \<noteq> ''admin'' \<and> \<not> hasMember db bid (user_id usr) then 403
      else 200)"
    by (auto simp: findOptimalRehearsalTimes_def missingField_def statusOf_def status_def
          Let_def split: option.splits)
  show "isl (findOptimalRehearsalTimes db usr bid body) \<longleftrightarrow>
      statusOf (findOptimalRehearsalTimes db usr bid body) \<noteq> 200"
    by (cases "findOptimalRehearsalTimes db usr bid body")
       (auto simp: statusOf_def status_def split: http_error.splits)
  show "optimalTimesValidators body \<noteq> [] \<longleftrightarrow>
      \<not> isISO8601 (startDate body) \<or> \<not> isISO8601 (endDate body) \<or>
      (case duration body of None \<Rightarrow> True | Some d \<Rightarrow> d < 30 \<or> 480 < d) \<or>
      (case minimumMembers body of None \<Rightarrow> False | Some m \<Rightarrow> m < 1)"
    by (auto simp: optimalTimesValidators_def isInt_def split: option.splits)
  show "findOptimalRehearsalTimes db usr bid (body\<lparr> endDate := Given i e \<rparr>) =
     findOptimalRehearsalTimes db usr bid (body\<lparr> endDate := Given i' e' \<rparr>)"
    by (simp add: findOptimalRehearsalTimes_def falsy_def split: option.splits)
qed

text \<open>
  Claim C6, amended: the backwards window is answered 200 for a member of the band, 404
  for a band that does not exist, 403 for a caller who is no member, and 400 with a
  duration of 0.
\<close>

theorem rejection_status_witness:
  "statusOf (findOptimalRehearsalTimes db2 aliceUser ''b1'' bodyBackwards) = 200 \<and>
   statusOf (findOptimalRehearsalTimes db2 bobUser ''b7'' bodyBackwards) = 404 \<and>
   statusOf (findOptimalRehearsalTimes db0 aliceUser ''b1'' bodyBackwards) = 403 \<and>
   statusOf (findOptimalRehearsalTimes db2 aliceUser ''b1''
     (bodyBackwards\<lparr> duration := Some 0 \<rparr>)) = 400 \<and>
   optimalTimesValidators bodyBackwards = []"
proof -
  have a: "findByPk db2 ''b7'' = None" "findByPk db2 ''b1'' \<noteq> None" "findByPk db0 ''b1'' \<noteq> None"
    by (simp_all add: findByPk_def db2_def db0_def)
  have b: "hasMember db2 ''b1'' (user_id aliceUser)" "\<not> hasMember db0 ''b1'' (user_id aliceUser)"
    "role aliceUser \<noteq> ''admin''"
    by (simp_all add: hasMember_def getMembers_def db2_def db0_def aliceUser_def alice_def)
  have c: "\<not> missingField bodyBackwards" "missingField (bodyBackwards\<lparr> duration := Some 0 \<rparr>)"
    by (simp_all add: missingField_def bodyBackwards_def falsy_def isoAt_def)
  show ?thesis
    using rejection_status [of db2 aliceUser "''b1''" bodyBackwards]
      rejection_status [of db2 bobUser "''b7''" bodyBackwards]
      rejection_status [of db0 aliceUser "''b1''" bodyBackwards]
      rejection_status [of db2 aliceUser "''b1''" "bodyBackwards\<lparr> duration := Some 0 \<rparr>"]
      a b c validators_backwards
    by simp
qed

section \<open>Claim C7: determinism\<close>

text \<open>
  Claim C7 says that two calls with the same roster, the same availability records and
  the same window return the same response. The query of \<^verbatim>\<open>getMembers\<close> has no
  order, and the unavailable member of the first slot is the last row it returns: the
  same band with the same two members, the rows once in one order and once in the other,
  gives two different responses to the same request.
\<close>

theorem roster_order_counterexample:
  "set (getMembers db2 ''b1'') = set (getMembers db2swap ''b1'') \<and>
   bands db2 = bands db2swap \<and> availabilities db2 = availabilities db2swap \<and>
   findOptimalRehearsalTimes db2 aliceUser ''b1'' body60 \<noteq>
     findOptimalRehearsalTimes db2swap aliceUser ''b1'' body60"
proof -
  have a: "set (getMembers db2 ''b1'') = set (getMembers db2swap ''b1'')"
    by (auto simp: members_db2 members_db2swap)
  have b: "bands db2 = bands db2swap \<and> availabilities db2 = availabilities db2swap"
    by (simp add: db2_def db2swap_def)
  have c: "resp2 \<noteq> resp2swap"
    by (simp add: resp2_def resp2swap_def alice_def bob_def)
  from a b c show ?thesis
    by (simp add: findOptimal_db2 findOptimal_db2swap)
qed

text \<open>
  Claim C7, amended. Two calls with the same body that both pass the input checks return
  the same response, slots in the same order, exactly when the query of the roster
  returns the same members in the same order of rows, whoever calls and whatever else
  the database holds.
\<close>

theorem same_rows_same_response:
  assumes "passesChecks db usr bid body" and "passesChecks db' usr' bid' body"
  shows "findOptimalRehearsalTimes db usr bid body = findOptimalRehearsalTimes db' usr' bid' body
           \<longleftrightarrow> getMembers db bid = getMembers db' bid'"
  using findOptimal_passes [OF assms(1)] findOptimal_passes [OF assms(2)]
  by (auto simp: placeholderTimes_eq)

text \<open>
  Claim C7, amended, at the two orders of the rows of Alice's band.
\<close>

theorem same_rows_same_response_witness:
  "passesChecks db2 aliceUser ''b1'' body60 \<and> passesChecks db2swap aliceUser ''b1'' body60 \<and>
   getMembers db2 ''b1'' \<noteq> getMembers db2swap ''b1'' \<and>
   findOptimalRehearsalTimes db2 aliceUser ''b1'' body60 \<noteq>
     findOptimalRehearsalTimes db2swap aliceUser ''b1'' body60"
  using same_rows_same_response [OF passes_body60 passes_swap] passes_body60 passes_swap
  by (simp add: members_db2 members_db2swap alice_def bob_def)

section \<open>Claim C8: the invariant of accepted availability records\<close>

text \<open>
  What the code does enforce. The chain of POST /api/availability: a one-time record has
  ISO 8601 dates and, where \<^verbatim>\<open>Date\<close> parses both, its end after its start; a
  recurring record with an expiry has, in the same way, its expiry after its effective
  date. The validators of the model: a row has its end time of day after its start, and
  its expiry after its effective date.
\<close>

lemma create_one_time_ordered:
  assumes "createValidators b = []" and "req_type b = Some ''one-time''"
  shows "isISO8601 (req_startTime b) \<and> isISO8601 (req_endTime b) \<and>
         (\<forall>s e. newDate (req_startTime b) = Some s \<and> newDate (req_endTime b) = Some e
            \<longrightarrow> s < e)"
  using assms
  by (auto simp: createValidators_def check_def date_le_def js_date_le_def
           split: if_splits option.splits)

lemma create_expiry_ordered:
  assumes "createValidators b = []" and "req_type b = Some ''recurring''"
    and "req_expiryDate b \<noteq> Undefined"
  shows "isISO8601 (req_effectiveDate b) \<and> isISO8601 (req_expiryDate b) \<and>
         (\<forall>f x. newDate (req_effectiveDate b) = Some f \<and> newDate (req_expiryDate b) = Some x
            \<longrightarrow> f < x)"
  using assms
  by (auto simp: createValidators_def check_def date_le_def js_date_le_def
           split: if_splits option.splits)

lemma model_ordered:
  assumes "modelValidators r = []"
  shows "av_startTime r < av_endTime r \<and>
         (case av_expiryDate r of None \<Rightarrow> True | Some x \<Rightarrow> av_effectiveDate r < x)"
  using assms
  by (auto simp: modelValidators_def isAfterStart_def isAfterEffective_def check_def
           split: option.splits if_splits)

lemma model_rejects_eveningRow:
  "modelValidators eveningRow = [''End time must be after start time'']"
  by (simp add: modelValidators_def isAfterStart_def isAfterEffective_def check_def
        eveningRow_def)

text \<open>
  Claim C8 says that an accepted record has its end strictly after its start, by time of
  day for a recurring record. The chains of the availability routes check the ranges of
  the hours and minutes of a recurring record and never compare them: a recurring
  record from 20:00 to 18:00 passes the chain of POST, is answered with 201, and passes
  the chain of PUT. The model of the table, and the one-time branch of the same chain,
  do compare end with start.
\<close>

theorem recurring_end_before_start_accepted:
  "createValidators eveningBackwards = [] \<and>
   createAvailability eveningBackwards = Inr (201, eveningBackwards) \<and>
   updateValidators eveningBackwards = [] \<and>
   req_type eveningBackwards = Some ''recurring'' \<and>
   endOfDay eveningBackwards < startOfDay eveningBackwards"
  by (simp add: createAvailability_def createValidators_def updateValidators_def check_def
        isISO8601_def isInt_def eveningBackwards_def startOfDay_def endOfDay_def isoAt_def)

section \<open>Claim C9: the placeholder response\<close>




section \<open>Claim C10: deleteBand deactivates and keeps the record\<close>

text \<open>
  What deleteBand does. It removes no band from the table. For an administrator of the
  application it answers with a success and stores the band with \<open>isActive\<close> false
  and every other attribute as it was. For every other caller of an existing band it
  answers 500 and leaves the database as it was.
\<close>

lemma deleteBand_dom: "dom (bands (snd (deleteBand db usr bid))) = dom (bands db)"
proof (cases "findByPk db bid")
  case None
  then show ?thesis by (simp add: deleteBand_def)
next
  case (Some b)
  then have "bid \<in> dom (bands db)" by (auto simp: findByPk_def)
  then have "insert bid (dom (bands db)) = dom (bands db)" by auto
  with Some show ?thesis by (simp add: deleteBand_def)
qed

lemma deleteBand_app_admin:
  assumes "findByPk db bid = Some b" and "role usr = ''admin''"
  shows "deleteBand db usr bid =
           (Inr ''Band deactivated successfully'',
            db\<lparr> bands := (bands db)(bid \<mapsto> b\<lparr> isActive := False \<rparr>) \<rparr>)"
  using assms by (simp add: deleteBand_def)

lemma deleteBand_not_app_admin:
  assumes "findByPk db bid = Some b" and "role usr \<noteq> ''admin''"
  shows "deleteBand db usr bid = (Inl (ServerError ''Error deactivating band''), db)"
  using assms by (simp add: deleteBand_def)

text \<open>
  Claim C10 says that deleteBand, for an existing band and an authorized caller, sets
  \<open>isActive\<close> to false and answers with a success; the route and the comment of the
  handler name the administrators of the band among the authorized callers. Alice, owner
  and member of her band and no administrator of the application, gets the error 500,
  and the band stays active: the handler calls \<^verbatim>\<open>band.getMember\<close>, a method that
  the association does not give.
\<close>

theorem deleteBand_member_fails:
  "findByPk db2 ''b1'' = Some theBand \<and>
   hasMember db2 ''b1'' (user_id aliceUser) \<and> ownerId theBand = user_id aliceUser \<and>
   deleteBand db2 aliceUser ''b1'' = (Inl (ServerError ''Error deactivating band''), db2) \<and>
   map_option isActive (findByPk (snd (deleteBand db2 aliceUser ''b1'')) ''b1'') = Some True"
proof -
  have f: "findByPk db2 ''b1'' = Some theBand"
    by (simp add: findByPk_def db2_def)
  have h: "hasMember db2 ''b1'' (user_id aliceUser) \<and> ownerId theBand = user_id aliceUser"
    by (simp add: hasMember_def members_db2 aliceUser_def alice_def theBand_def)
  have r: "role aliceUser \<noteq> ''admin''"
    by (simp add: aliceUser_def)
  have d: "deleteBand db2 aliceUser ''b1'' = (Inl (ServerError ''Error deactivating band''), db2)"
    by (rule deleteBand_not_app_admin [OF f r])
  have a: "isActive theBand" by (simp add: theBand_def)
  from f h d a show ?thesis by simp
qed

end
